theory Spec2Isabelle
  imports Main
begin

section \<open>The shim: \<^verbatim>\<open>src/runtimes/lua/luawrap.h\<close>\<close>

text \<open>
  The header holds five \<^verbatim>\<open>static inline\<close> functions. Each body is one call of a macro
  of \<^verbatim>\<open>lua.h\<close> on the wrapper's own arguments, in the same order:
  \<^verbatim>\<open>
  static inline void luawrap_pop(lua_State *L, int n) { lua_pop(L, n); }
  static inline int luawrap_pcall(lua_State *L, int nargs, int nresults, int errfunc) {
      return lua_pcall(L, nargs, nresults, errfunc); }
  static inline int luawrap_isfunction(lua_State *L, int idx) { return lua_isfunction(L, idx); }
  static inline lua_Number luawrap_tonumber(lua_State *L, int idx) { return lua_tonumber(L, idx); }
  static inline const char* luawrap_tostring(lua_State *L, int idx) { return lua_tostring(L, idx); }
  \<close>
  \<^verbatim>\<open>lua.h\<close> belongs to the Lua distribution, not to the repository, so each wrapper takes
  the macro it calls as its first argument. A macro receives the interpreter state that
  \<^verbatim>\<open>L\<close> points to and hands it back next to its C result: whatever the macro does
  to the interpreter is then part of what the wrapper returns. The state is a type
  variable, since \<^verbatim>\<open>lua_State\<close> is opaque to the shim.

  The shim does no arithmetic on its \<^verbatim>\<open>int\<close> arguments, so they are plain integers.
  \<^verbatim>\<open>lua_Number\<close> is the engine's floating-point type; it is left unspecified, as
  nothing here computes with it. A \<^verbatim>\<open>const char *\<close> result is the text it points to,
  or \<open>None\<close> for the null pointer.
\<close>

type_synonym c_int = int

typedecl lua_Number

type_synonym c_string = "string option"

definition luawrap_pop :: "('s \<Rightarrow> c_int \<Rightarrow> 's) \<Rightarrow> 's \<Rightarrow> c_int \<Rightarrow> 's" where
  "luawrap_pop lua_pop L n = lua_pop L n"

definition luawrap_pcall ::
  "('s \<Rightarrow> c_int \<Rightarrow> c_int \<Rightarrow> c_int \<Rightarrow> c_int \<times> 's) \<Rightarrow> 's \<Rightarrow> c_int \<Rightarrow> c_int \<Rightarrow> c_int \<Rightarrow> c_int \<times> 's" where
  "luawrap_pcall lua_pcall L nargs nresults errfunc = lua_pcall L nargs nresults errfunc"

definition luawrap_isfunction :: "('s \<Rightarrow> c_int \<Rightarrow> c_int \<times> 's) \<Rightarrow> 's \<Rightarrow> c_int \<Rightarrow> c_int \<times> 's" where
  "luawrap_isfunction lua_isfunction L idx = lua_isfunction L idx"

definition luawrap_tonumber ::
  "('s \<Rightarrow> c_int \<Rightarrow> lua_Number \<times> 's) \<Rightarrow> 's \<Rightarrow> c_int \<Rightarrow> lua_Number \<times> 's" where
  "luawrap_tonumber lua_tonumber L idx = lua_tonumber L idx"

definition luawrap_tostring ::
  "('s \<Rightarrow> c_int \<Rightarrow> c_string \<times> 's) \<Rightarrow> 's \<Rightarrow> c_int \<Rightarrow> c_string \<times> 's" where
  "luawrap_tostring lua_tostring L idx = lua_tostring L idx"

text \<open>
  A host program reaches the engine through the shim one call at a time. The five macros
  of one engine are collected in a record, a call names the wrapper and its arguments,
  and a returned value is the C result of that call.
\<close>

record 's lua_macros =
  lua_pop :: "'s \<Rightarrow> c_int \<Rightarrow> 's"
  lua_pcall :: "'s \<Rightarrow> c_int \<Rightarrow> c_int \<Rightarrow> c_int \<Rightarrow> c_int \<times> 's"
  lua_isfunction :: "'s \<Rightarrow> c_int \<Rightarrow> c_int \<times> 's"
  lua_tonumber :: "'s \<Rightarrow> c_int \<Rightarrow> lua_Number \<times> 's"
  lua_tostring :: "'s \<Rightarrow> c_int \<Rightarrow> c_string \<times> 's"

datatype shim_call =
    Call_pop c_int
  | Call_pcall c_int c_int c_int
  | Call_isfunction c_int
  | Call_tonumber c_int
  | Call_tostring c_int

datatype c_result = Void | Int_result c_int | Number_result lua_Number | String_result c_string

fun call_wrapper :: "'s lua_macros \<Rightarrow> shim_call \<Rightarrow> 's \<Rightarrow> c_result \<times> 's" where
  "call_wrapper M (Call_pop n) L = (Void, luawrap_pop (lua_pop M) L n)"
| "call_wrapper M (Call_pcall nargs nresults errfunc) L =
     (case luawrap_pcall (lua_pcall M) L nargs nresults errfunc of (r, L') \<Rightarrow> (Int_result r, L'))"
| "call_wrapper M (Call_isfunction idx) L =
     (case luawrap_isfunction (lua_isfunction M) L idx of (r, L') \<Rightarrow> (Int_result r, L'))"
| "call_wrapper M (Call_tonumber idx) L =
     (case luawrap_tonumber (lua_tonumber M) L idx of (r, L') \<Rightarrow> (Number_result r, L'))"
| "call_wrapper M (Call_tostring idx) L =
     (case luawrap_tostring (lua_tostring M) L idx of (r, L') \<Rightarrow> (String_result r, L'))"

fun call_macro :: "'s lua_macros \<Rightarrow> shim_call \<Rightarrow> 's \<Rightarrow> c_result \<times> 's" where
  "call_macro M (Call_pop n) L = (Void, lua_pop M L n)"
| "call_macro M (Call_pcall nargs nresults errfunc) L =
     (case lua_pcall M L nargs nresults errfunc of (r, L') \<Rightarrow> (Int_result r, L'))"
| "call_macro M (Call_isfunction idx) L =
     (case lua_isfunction M L idx of (r, L') \<Rightarrow> (Int_result r, L'))"
| "call_macro M (Call_tonumber idx) L =
     (case lua_tonumber M L idx of (r, L') \<Rightarrow> (Number_result r, L'))"
| "call_macro M (Call_tostring idx) L =
     (case lua_tostring M L idx of (r, L') \<Rightarrow> (String_result r, L'))"

text \<open>
  A host program is a list of calls. Running it threads the interpreter state through
  the calls in order and collects what each one returned.
\<close>

fun run_calls ::
  "(shim_call \<Rightarrow> 's \<Rightarrow> c_result \<times> 's) \<Rightarrow> shim_call list \<Rightarrow> 's \<Rightarrow> c_result list \<times> 's" where
  "run_calls step [] L = ([], L)"
| "run_calls step (c # cs) L =
     (case step c L of (r, L') \<Rightarrow>
        (case run_calls step cs L' of (rs, L'') \<Rightarrow> (r # rs, L'')))"

section \<open>The engine's value stack\<close>

text \<open>
  The data model of the interpreter, as far as the stack operations need it: the value
  stack is an ordered sequence of tagged values inside the interpreter state. The list
  runs from the bottom of the stack to its top. Functions, tables and userdata are
  engine-owned objects, known here by an identity only. Whatever else the interpreter
  state holds (globals, heap) rides along in the record's extension.
\<close>

datatype lua_value =
    LNil
  | LBoolean bool
  | LNumber lua_Number
  | LString string
  | LFunction nat
  | LTable nat
  | LUserdata nat

record lua_State =
  stack :: "lua_value list"

definition stack_depth :: "'a lua_State_scheme \<Rightarrow> nat" where
  "stack_depth L = length (stack L)"

text \<open>
  Modelled from the spec: the macro \<^verbatim>\<open>lua_pop\<close> of \<^verbatim>\<open>lua.h\<close>, which is not under
  \<^verbatim>\<open>src/\<close>. The spec's words for the operation that the shim forwards to it are
  "removes the top \<open>n\<close> values; a no-op boundary case when \<open>n = 0\<close>", and of a count
  beyond the depth they say that the engine itself makes no check ("underflow silently").
  The wrapper that calls the macro returns \<^verbatim>\<open>void\<close>, so the macro is a function from
  state to state and cannot answer a count with an error. In this model a stack of fewer
  than \<open>n\<close> values has nothing left to remove once it is empty, and a negative count
  removes nothing; the spec gives neither case a meaning, and no theorem below rests on
  what the model does there.
\<close>

definition lua_pop_model :: "'a lua_State_scheme \<Rightarrow> c_int \<Rightarrow> 'a lua_State_scheme" where
  "lua_pop_model L n = L\<lparr>stack := take (length (stack L) - nat n) (stack L)\<rparr>"

section \<open>Bridge operations of the spec that the shim does not contain\<close>

text \<open>
  Modelled from the spec: \<^verbatim>\<open>PushArgument\<close>, which has no wrapper in the shim. "Appends one
  value of a supported scalar type (nil, bool, number, string) to the top of the stack.
  No return value; side effect is stack growth by 1."
\<close>

datatype DynamicValue = DNil | DBool bool | DNumber lua_Number | DString string

fun to_lua_value :: "DynamicValue \<Rightarrow> lua_value" where
  "to_lua_value DNil = LNil"
| "to_lua_value (DBool b) = LBoolean b"
| "to_lua_value (DNumber x) = LNumber x"
| "to_lua_value (DString s) = LString s"

definition PushArgument :: "DynamicValue \<Rightarrow> 'a lua_State_scheme \<Rightarrow> 'a lua_State_scheme" where
  "PushArgument v L = L\<lparr>stack := stack L @ [to_lua_value v]\<rparr>"

text \<open>
  The spec's own \<^verbatim>\<open>Pop\<close>, written from its words to be compared with \<^verbatim>\<open>luawrap_pop\<close>:
  "removes the top \<open>n\<close> values; a no-op boundary case when \<open>n = 0\<close>; fails fast
  (defensive check) if \<open>n\<close> exceeds current stack depth". The failure is the
  \<^verbatim>\<open>StackUnderflowError\<close> of the spec's error taxonomy.
\<close>

datatype bridge_error =
    SyntaxError string
  | RuntimeError string
  | MemoryError
  | InvalidStateError
  | StackUnderflowError

definition Pop :: "'a lua_State_scheme \<Rightarrow> c_int \<Rightarrow> bridge_error + 'a lua_State_scheme" where
  "Pop L n =
     (if int (stack_depth L) < n then Inl StackUnderflowError
      else Inr (L\<lparr>stack := take (stack_depth L - nat n) (stack L)\<rparr>))"

text \<open>
  Sequences of stack operations. A push is \<^verbatim>\<open>PushArgument\<close>, a pop is \<^verbatim>\<open>luawrap_pop\<close>
  on the engine's \<^verbatim>\<open>lua_pop\<close>. The declared effect of an operation on the depth is
  \<open>+1\<close> for a push and \<open>-n\<close> for a pop of \<open>n\<close> values.
\<close>

datatype stack_op = Push_op DynamicValue | Pop_op c_int

fun run_op :: "stack_op \<Rightarrow> 'a lua_State_scheme \<Rightarrow> 'a lua_State_scheme" where
  "run_op (Push_op v) L = PushArgument v L"
| "run_op (Pop_op n) L = luawrap_pop lua_pop_model L n"

fun run_ops :: "stack_op list \<Rightarrow> 'a lua_State_scheme \<Rightarrow> 'a lua_State_scheme" where
  "run_ops [] L = L"
| "run_ops (op # ops) L = run_ops ops (run_op op L)"

fun declared_growth :: "stack_op \<Rightarrow> int" where
  "declared_growth (Push_op v) = 1"
| "declared_growth (Pop_op n) = - n"

text \<open>
  A sequence is balanced from depth \<open>d\<close> when every pop in it asks for a count between
  \<open>0\<close> and the number of values then on the stack: no pop takes more than the pushes
  before it and the initial \<open>d\<close> values have provided.
\<close>

fun balanced :: "nat \<Rightarrow> stack_op list \<Rightarrow> bool" where
  "balanced d [] = True"
| "balanced d (Push_op v # ops) = balanced (Suc d) ops"
| "balanced d (Pop_op n # ops) = (0 \<le> n \<and> n \<le> int d \<and> balanced (d - nat n) ops)"

section \<open>The wrappers forward to the macros\<close>

lemma call_wrapper_eq: "call_wrapper M c L = call_macro M c L"
  by (cases c)
     (simp_all add: luawrap_pop_def luawrap_pcall_def luawrap_isfunction_def
        luawrap_tonumber_def luawrap_tostring_def)

lemma run_calls_wrapper_eq: "run_calls (call_wrapper M) cs L = run_calls (call_macro M) cs L"
  by (induction cs arbitrary: L) (simp_all add: call_wrapper_eq)

text \<open>
  Claim C10. Each of the five wrappers is an exact pass-through: for every engine (every
  choice of the five macros), every interpreter state and every argument tuple, the
  wrapper returns the value and the interpreter state that the macro returns on the same
  arguments. Nothing is added, reordered or dropped: a host program that makes its calls
  through the wrappers gets the same results, call by call, and ends in the same state as
  one that invokes the macros.
\<close>

theorem luawrap_pass_through:
  "luawrap_pop (lua_pop M) L n = lua_pop M L n
   \<and> luawrap_pcall (lua_pcall M) L nargs nresults errfunc = lua_pcall M L nargs nresults errfunc
   \<and> luawrap_isfunction (lua_isfunction M) L idx = lua_isfunction M L idx
   \<and> luawrap_tonumber (lua_tonumber M) L idx = lua_tonumber M L idx
   \<and> luawrap_tostring (lua_tostring M) L idx = lua_tostring M L idx
   \<and> run_calls (call_wrapper M) cs L = run_calls (call_macro M) cs L"
proof -
  have "luawrap_pop (lua_pop M) L n = lua_pop M L n"
    by (simp add: luawrap_pop_def)
  moreover have "luawrap_pcall (lua_pcall M) L nargs nresults errfunc
      = lua_pcall M L nargs nresults errfunc"
    by (simp add: luawrap_pcall_def)
  moreover have "luawrap_isfunction (lua_isfunction M) L idx = lua_isfunction M L idx"
    by (simp add: luawrap_isfunction_def)
  moreover have "luawrap_tonumber (lua_tonumber M) L idx = lua_tonumber M L idx"
    by (simp add: luawrap_tonumber_def)
  moreover have "luawrap_tostring (lua_tostring M) L idx = lua_tostring M L idx"
    by (simp add: luawrap_tostring_def)
  moreover have "run_calls (call_wrapper M) cs L = run_calls (call_macro M) cs L"
    by (rule run_calls_wrapper_eq)
  ultimately show ?thesis by blast
qed

section \<open>Pop\<close>

lemma stack_luawrap_pop:
  "stack (luawrap_pop lua_pop_model L n) = take (length (stack L) - nat n) (stack L)"
  by (simp add: luawrap_pop_def lua_pop_model_def)

lemma stack_depth_luawrap_pop:
  assumes "0 \<le> n" and "n \<le> int (stack_depth L)"
  shows "int (stack_depth (luawrap_pop lua_pop_model L n)) = int (stack_depth L) - n"
proof -
  from assms have "nat n \<le> length (stack L)"
    by (simp add: stack_depth_def)
  then have "length (take (length (stack L) - nat n) (stack L)) = length (stack L) - nat n"
    by simp
  with assms show ?thesis
    by (simp add: stack_depth_def stack_luawrap_pop)
qed

lemma stack_depth_PushArgument: "stack_depth (PushArgument v L) = Suc (stack_depth L)"
  by (simp add: stack_depth_def PushArgument_def)

lemma balanced_run_ops:
  "balanced (stack_depth L) ops \<Longrightarrow>
     int (stack_depth (run_ops ops L)) = int (stack_depth L) + sum_list (map declared_growth ops)"
proof (induction ops arbitrary: L)
  case Nil
  show ?case by simp
next
  case (Cons op ops)
  show ?case
  proof (cases op)
    case (Push_op v)
    with Cons.prems have "balanced (stack_depth (PushArgument v L)) ops"
      by (simp add: stack_depth_PushArgument)
    then have "int (stack_depth (run_ops ops (PushArgument v L)))
        = int (stack_depth (PushArgument v L)) + sum_list (map declared_growth ops)"
      by (rule Cons.IH)
    with Push_op show ?thesis
      by (simp add: stack_depth_PushArgument)
  next
    case (Pop_op n)
    with Cons.prems have n: "0 \<le> n" "n \<le> int (stack_depth L)"
      and rest: "balanced (stack_depth L - nat n) ops"
      by simp_all
    from n have depth: "int (stack_depth (luawrap_pop lua_pop_model L n)) = int (stack_depth L) - n"
      by (rule stack_depth_luawrap_pop)
    with n have "stack_depth (luawrap_pop lua_pop_model L n) = stack_depth L - nat n"
      by linarith
    with rest have "balanced (stack_depth (luawrap_pop lua_pop_model L n)) ops"
      by simp
    then have "int (stack_depth (run_ops ops (luawrap_pop lua_pop_model L n)))
        = int (stack_depth (luawrap_pop lua_pop_model L n)) + sum_list (map declared_growth ops)"
      by (rule Cons.IH)
    with Pop_op depth show ?thesis
      by simp
  qed
qed

lemma three_pushes_pop_three:
  "run_ops [Push_op a, Push_op b, Push_op c, Pop_op 3] L = L"
  by (simp add: PushArgument_def luawrap_pop_def lua_pop_model_def)

text \<open>
  Claim C9. For every stack state, \<^verbatim>\<open>luawrap_pop\<close> with \<open>n = 0\<close> is a no-op: the
  interpreter state it returns is the one it was given, so the stack holds the same
  values at the same depth.
\<close>

theorem luawrap_pop_zero:
  "luawrap_pop lua_pop_model L 0 = L
   \<and> stack (luawrap_pop lua_pop_model L 0) = stack L
   \<and> stack_depth (luawrap_pop lua_pop_model L 0) = stack_depth L"
  by (simp add: luawrap_pop_def lua_pop_model_def)

text \<open>
  Claim C7. For every balanced sequence of pushes and pops, the stack depth after the
  sequence is the depth before it plus the sum of the declared effects of its
  operations (\<open>+1\<close> for each push, \<open>-n\<close> for each pop of \<open>n\<close>). In particular three
  pushes followed by a pop of three return the stack to its baseline, in depth and in
  content.
\<close>

theorem balanced_sequence_depth:
  "(balanced (stack_depth L) ops \<longrightarrow>
      int (stack_depth (run_ops ops L))
        = int (stack_depth L) + sum_list (map declared_growth ops))
   \<and> balanced (stack_depth L) [Push_op a, Push_op b, Push_op c, Pop_op 3]
   \<and> stack_depth (run_ops [Push_op a, Push_op b, Push_op c, Pop_op 3] L) = stack_depth L
   \<and> run_ops [Push_op a, Push_op b, Push_op c, Pop_op 3] L = L"
proof -
  have "balanced (stack_depth L) [Push_op a, Push_op b, Push_op c, Pop_op 3]"
    by simp
  moreover have "run_ops [Push_op a, Push_op b, Push_op c, Pop_op 3] L = L"
    by (rule three_pushes_pop_three)
  ultimately show ?thesis
    using balanced_run_ops [of L ops] by simp
qed

theorem balanced_sequence_depth_witness:
  "balanced (stack_depth \<lparr>stack = [LBoolean True]\<rparr>)
      [Push_op DNil, Pop_op 2, Push_op (DString ''x''), Push_op (DBool False), Pop_op 1]
   \<and> int (stack_depth (run_ops
        [Push_op DNil, Pop_op 2, Push_op (DString ''x''), Push_op (DBool False), Pop_op 1]
        \<lparr>stack = [LBoolean True]\<rparr>)) = 1
   \<and> int (stack_depth \<lparr>stack = [LBoolean True]\<rparr>)
        + sum_list (map declared_growth
            [Push_op DNil, Pop_op 2, Push_op (DString ''x''), Push_op (DBool False), Pop_op 1]) = 1"
proof -
  let ?L = "\<lparr>stack = [LBoolean True]\<rparr>"
  let ?ops = "[Push_op DNil, Pop_op 2, Push_op (DString ''x''), Push_op (DBool False), Pop_op 1]"
  have b: "balanced (stack_depth ?L) ?ops"
    by (simp add: stack_depth_def)
  have s: "int (stack_depth ?L) + sum_list (map declared_growth ?ops) = 1"
    by (simp add: stack_depth_def)
  from balanced_sequence_depth [of ?L ?ops] b
  have "int (stack_depth (run_ops ?ops ?L))
      = int (stack_depth ?L) + sum_list (map declared_growth ?ops)"
    by blast
  with b s show ?thesis by simp
qed

text \<open>
  Claim C6, as the code has it. \<^verbatim>\<open>luawrap_pop\<close> makes no check of \<open>n\<close> against the
  stack depth, and its \<^verbatim>\<open>void\<close> result has no room for an error. For every
  \<open>macro\<close> that the engine may define \<^verbatim>\<open>lua_pop\<close> to be: when \<open>n\<close> exceeds the
  current depth, the wrapper hands \<open>n\<close> to the macro and returns the state the macro
  leaves, where the spec's \<^verbatim>\<open>Pop\<close> fails with \<^verbatim>\<open>StackUnderflowError\<close>.
\<close>

theorem luawrap_pop_unchecked:
  "int (stack_depth L) < n \<Longrightarrow>
     luawrap_pop macro L n = macro L n
     \<and> Pop L n = Inl StackUnderflowError
     \<and> Inr (luawrap_pop macro L n) \<noteq> Pop L n"
  by (simp add: luawrap_pop_def Pop_def)

theorem luawrap_pop_unchecked_witness:
  "int (stack_depth \<lparr>stack = []\<rparr>) < 1
   \<and> luawrap_pop lua_pop_model \<lparr>stack = []\<rparr> 1 = lua_pop_model \<lparr>stack = []\<rparr> 1
   \<and> Pop \<lparr>stack = []\<rparr> 1 = Inl StackUnderflowError
   \<and> Inr (luawrap_pop lua_pop_model \<lparr>stack = []\<rparr> 1) \<noteq> Pop \<lparr>stack = []\<rparr> 1"
proof -
  have h: "int (stack_depth \<lparr>stack = []\<rparr>) < 1"
    by (simp add: stack_depth_def)
  from luawrap_pop_unchecked [OF h, of lua_pop_model] h show ?thesis
    by blast
qed

text \<open>
  Claim C6 as the spec states it fails on a stack of one value and \<open>n = 2\<close>: the
  count exceeds the depth, the spec's \<^verbatim>\<open>Pop\<close> answers \<^verbatim>\<open>StackUnderflowError\<close>, and
  \<^verbatim>\<open>luawrap_pop\<close> returns what the engine's \<^verbatim>\<open>lua_pop\<close> makes of the count \<open>2\<close>.
\<close>

theorem luawrap_pop_fail_fast_counterexample:
  "int (stack_depth \<lparr>stack = [LString ''v'']\<rparr>) < 2
   \<and> Pop \<lparr>stack = [LString ''v'']\<rparr> 2 = Inl StackUnderflowError
   \<and> luawrap_pop lua_pop_model \<lparr>stack = [LString ''v'']\<rparr> 2
       = lua_pop_model \<lparr>stack = [LString ''v'']\<rparr> 2
   \<and> Inr (luawrap_pop lua_pop_model \<lparr>stack = [LString ''v'']\<rparr> 2)
       \<noteq> Pop \<lparr>stack = [LString ''v'']\<rparr> 2"
  by (simp add: luawrap_pop_def Pop_def stack_depth_def)

end
